theory Spec2Isabelle
  imports Main
begin

section \<open>JavaScript values\<close>

text \<open>
  The adapter passes untyped values around (\<open>any\<close>, \<open>unknown\<close>): operation results,
  error details, wallets, message payloads. They are modelled as finite JSON trees with
  \<open>undefined\<close> added. An object is a plain object, given as the list of its own
  enumerable properties in enumeration order, with distinct names; no property is a
  function. Strings are lists of 8-bit code units.

  The adapter does no arithmetic. Of a number it asks only whether it is falsy and which
  text it prints as, so a number is either zero (of either sign), or a finite number
  other than zero, carried as the text that \<open>Number.prototype.toString\<close> gives for it
  (\<open>42\<close>, \<open>-0.5\<close>, \<open>1e+21\<close>), or \<open>NaN\<close>, or an infinity.
\<close>

datatype number =
    Zero
  | NonZero string
  | NaN
  | Infinity
  | NegInfinity

datatype json =
    JUndefined
  | JNull
  | JBool bool
  | JNum number
  | JStr string
  | JArr "json list"
  | JObj "(string \<times> json) list"

text \<open>\<open>String(n)\<close> for a number, and whether \<open>isFinite(n)\<close>.\<close>

fun Number_toString :: "number \<Rightarrow> string" where
  "Number_toString Zero = ''0''"
| "Number_toString (NonZero t) = t"
| "Number_toString NaN = ''NaN''"
| "Number_toString Infinity = ''Infinity''"
| "Number_toString NegInfinity = ''-Infinity''"

fun Number_isFinite :: "number \<Rightarrow> bool" where
  "Number_isFinite Zero = True"
| "Number_isFinite (NonZero t) = True"
| "Number_isFinite NaN = False"
| "Number_isFinite Infinity = False"
| "Number_isFinite NegInfinity = False"

text \<open>The condition of \<open>if (v)\<close> and of \<open>v ? a : b\<close>, and the left side of \<open>||\<close>.\<close>

fun truthy :: "json \<Rightarrow> bool" where
  "truthy JUndefined = False"
| "truthy JNull = False"
| "truthy (JBool b) = b"
| "truthy (JNum n) = (n \<noteq> Zero \<and> n \<noteq> NaN)"
| "truthy (JStr s) = (s \<noteq> [])"
| "truthy (JArr xs) = True"
| "truthy (JObj ms) = True"

subsection \<open>Strings\<close>

fun starts_with :: "string \<Rightarrow> string \<Rightarrow> bool" where
  "starts_with s [] = True"
| "starts_with [] (c # cs) = False"
| "starts_with (x # xs) (c # cs) = (x = c \<and> starts_with xs cs)"

text \<open>\<open>s.includes(search)\<close>: \<open>search\<close> occurs in \<open>s\<close> at some position.\<close>

fun str_includes :: "string \<Rightarrow> string \<Rightarrow> bool" where
  "str_includes [] search = (search = [])"
| "str_includes (c # cs) search = (starts_with (c # cs) search \<or> str_includes cs search)"

text \<open>\<open>parts.join(sep)\<close> on an array of strings.\<close>

fun join :: "string \<Rightarrow> string list \<Rightarrow> string" where
  "join sep [] = []"
| "join sep [x] = x"
| "join sep (x # y # ys) = x @ sep @ join sep (y # ys)"

definition digit_char :: "nat \<Rightarrow> char" where
  "digit_char d = ''0123456789abcdef'' ! d"

fun nat_to_string :: "nat \<Rightarrow> string" where
  "nat_to_string n =
     (if n < 10 then [digit_char n] else nat_to_string (n div 10) @ [digit_char (n mod 10)])"

declare nat_to_string.simps [simp del]

text \<open>\<open>Error.prototype.toString\<close> for an error with the given name and message.\<close>

definition Error_toString :: "string \<Rightarrow> string \<Rightarrow> string" where
  "Error_toString name msg =
     (if name = [] then msg else if msg = [] then name else name @ '': '' @ msg)"

section \<open>Error normalization (utils/errors)\<close>

datatype AOErrorCode =
    VALIDATION_ERROR
  | NETWORK_ERROR
  | PROTOCOL_ERROR
  | SECURITY_ERROR
  | INSUFFICIENT_BALANCE
  | TRANSACTION_FAILED
  | UNAUTHORIZED
  | SERVICE_NOT_INITIALIZED
  | CONFIGURATION_ERROR

record AOErrorResponse =
  code :: AOErrorCode
  message :: string
  details :: json
  suggestions :: "string list option"

text \<open>
  What a \<open>throw\<close> can carry: an \<open>AOError\<close> (code, message, details, suggestions), any
  other \<open>Error\<close> instance (name, message), or a value that is no \<open>Error\<close> at all.
\<close>

datatype thrown =
    AOError AOErrorCode string json "string list option"
  | PlainError string string
  | NonError json

fun instanceof_AOError :: "thrown \<Rightarrow> bool" where
  "instanceof_AOError (AOError c m d s) = True"
| "instanceof_AOError (PlainError n m) = False"
| "instanceof_AOError (NonError v) = False"

text \<open>
  \<open>String(v)\<close>, which can throw. An array is its elements joined by commas, \<open>null\<close> and
  \<open>undefined\<close> elements giving the empty string. A plain object is \<open>[object Object]\<close>
  through the \<open>toString\<close> it inherits; when it has a property \<open>toString\<close> of its own,
  that property is not a function and the inherited \<open>valueOf\<close> returns the object
  itself, so the conversion finds no primitive and throws a \<open>TypeError\<close>.
\<close>

definition cannot_convert :: thrown where
  "cannot_convert = PlainError ''TypeError'' ''Cannot convert object to primitive value''"

fun JS_String :: "json \<Rightarrow> thrown + string"
  and JS_String_elems :: "json list \<Rightarrow> thrown + string list"
where
  "JS_String JUndefined = Inr ''undefined''"
| "JS_String JNull = Inr ''null''"
| "JS_String (JBool b) = Inr (if b then ''true'' else ''false'')"
| "JS_String (JNum n) = Inr (Number_toString n)"
| "JS_String (JStr s) = Inr s"
| "JS_String (JArr xs) =
     (case JS_String_elems xs of Inl e \<Rightarrow> Inl e | Inr parts \<Rightarrow> Inr (join '','' parts))"
| "JS_String (JObj ms) =
     (if ''toString'' \<in> set (map fst ms) then Inl cannot_convert else Inr ''[object Object]'')"
| "JS_String_elems [] = Inr []"
| "JS_String_elems (x # xs) =
     (case (if x = JNull \<or> x = JUndefined then Inr [] else JS_String x) of
        Inl e \<Rightarrow> Inl e
      | Inr t \<Rightarrow> (case JS_String_elems xs of Inl e \<Rightarrow> Inl e | Inr ts \<Rightarrow> Inr (t # ts)))"

text \<open>\<open>String(error)\<close> for what was thrown.\<close>

fun String_thrown :: "thrown \<Rightarrow> thrown + string" where
  "String_thrown (AOError c m d s) = Inr (Error_toString ''AOError'' m)"
| "String_thrown (PlainError n m) = Inr (Error_toString n m)"
| "String_thrown (NonError v) = JS_String v"

text \<open>\<open>new AOError(code, message, details, suggestions).toResponse()\<close>.\<close>

definition toResponse :: "AOErrorCode \<Rightarrow> string \<Rightarrow> json \<Rightarrow> string list option \<Rightarrow> AOErrorResponse" where
  "toResponse c m d s = \<lparr>code = c, message = m, details = d, suggestions = s\<rparr>"

definition originalError :: "string \<Rightarrow> json" where
  "originalError s = JObj [(''originalError'', JStr s)]"

text \<open>
  The last \<open>return\<close> of \<open>handleAOError\<close>. Its argument \<open>String(error)\<close> is evaluated
  first: when that throws, nothing is returned and the exception leaves the function.
\<close>

definition generic_error :: "thrown \<Rightarrow> thrown + AOErrorResponse" where
  "generic_error e =
     (case String_thrown e of
        Inl t \<Rightarrow> Inl t
      | Inr text \<Rightarrow>
          Inr (toResponse PROTOCOL_ERROR ''An unexpected error occurred''
                 (originalError text)
                 (Some [''Please try again'', ''Contact support if the issue persists''])))"

text \<open>\<open>handleAOError\<close>: \<open>Inr\<close> the response it returns, \<open>Inl\<close> what it throws itself.\<close>

fun handleAOError :: "thrown \<Rightarrow> thrown + AOErrorResponse" where
  "handleAOError (AOError c m d s) = Inr (toResponse c m d s)"
| "handleAOError (PlainError n m) =
     (if str_includes m ''insufficient funds'' then
        Inr (toResponse INSUFFICIENT_BALANCE ''Insufficient balance to complete transaction''
          (originalError m)
          (Some [''Check your wallet balance'', ''Ensure you have enough AR for fees'']))
      else if str_includes m ''network'' \<or> str_includes m ''connection'' then
        Inr (toResponse NETWORK_ERROR ''Network connection error''
          (originalError m)
          (Some [''Check your internet connection'', ''Verify gateway is accessible'']))
      else if str_includes m ''reverted'' then
        Inr (toResponse TRANSACTION_FAILED ''Transaction reverted on chain''
          (originalError m)
          (Some [''Check transaction parameters'', ''Ensure contract state allows this operation'']))
      else generic_error (PlainError n m))"
| "handleAOError (NonError v) = generic_error (NonError v)"

section \<open>Result formatting (utils/format)\<close>

definition nl :: string where
  "nl = [CHR 0x0A]"

definition dq :: string where
  "dq = [CHR 0x22]"

definition hex4 :: "nat \<Rightarrow> string" where
  "hex4 n = [digit_char (n div 4096 mod 16), digit_char (n div 256 mod 16),
             digit_char (n div 16 mod 16), digit_char (n mod 16)]"

text \<open>
  The quoting of \<open>JSON.stringify\<close>: the double quote and the backslash are escaped,
  control characters below 0x20 get their short escape or \<open>\u00XX\<close>.
\<close>

definition quote_char :: "char \<Rightarrow> string" where
  "quote_char c =
     (if c = CHR 0x22 then [CHR 0x5C, CHR 0x22]
      else if c = CHR 0x5C then [CHR 0x5C, CHR 0x5C]
      else if c = CHR 0x08 then [CHR 0x5C, CHR ''b'']
      else if c = CHR 0x0C then [CHR 0x5C, CHR ''f'']
      else if c = CHR 0x0A then [CHR 0x5C, CHR ''n'']
      else if c = CHR 0x0D then [CHR 0x5C, CHR ''r'']
      else if c = CHR 0x09 then [CHR 0x5C, CHR ''t'']
      else if of_char c < (32::nat) then [CHR 0x5C, CHR ''u''] @ hex4 (of_char c)
      else [c])"

definition quote :: "string \<Rightarrow> string" where
  "quote s = dq @ concat (map quote_char s) @ dq"

text \<open>
  \<open>JSON.stringify(value, null, gap)\<close> as ECMAScript's SerializeJSONProperty, with the
  current indentation as a parameter. \<open>None\<close> is the result \<open>undefined\<close>: an
  \<open>undefined\<close> value has no JSON text, is left out of an object and is \<open>null\<close> in an
  array. A number that is not finite is \<open>null\<close>.
\<close>

fun stringify_value :: "string \<Rightarrow> string \<Rightarrow> json \<Rightarrow> string option"
  and stringify_elems :: "string \<Rightarrow> string \<Rightarrow> json list \<Rightarrow> string list"
  and stringify_props :: "string \<Rightarrow> string \<Rightarrow> (string \<times> json) list \<Rightarrow> string list"
where
  "stringify_value gap indent JUndefined = None"
| "stringify_value gap indent JNull = Some ''null''"
| "stringify_value gap indent (JBool b) = Some (if b then ''true'' else ''false'')"
| "stringify_value gap indent (JNum n) =
     Some (if Number_isFinite n then Number_toString n else ''null'')"
| "stringify_value gap indent (JStr s) = Some (quote s)"
| "stringify_value gap indent (JArr xs) =
     (let partial = stringify_elems gap (indent @ gap) xs in
      if partial = [] then Some ''[]''
      else if gap = [] then Some (''['' @ join '','' partial @ '']'')
      else Some (''['' @ nl @ (indent @ gap) @ join ('','' @ nl @ (indent @ gap)) partial
                 @ nl @ indent @ '']''))"
| "stringify_value gap indent (JObj ms) =
     (let partial = stringify_props gap (indent @ gap) ms in
      if partial = [] then Some ''{}''
      else if gap = [] then Some (''{'' @ join '','' partial @ ''}'')
      else Some (''{'' @ nl @ (indent @ gap) @ join ('','' @ nl @ (indent @ gap)) partial
                 @ nl @ indent @ ''}''))"
| "stringify_elems gap indent [] = []"
| "stringify_elems gap indent (x # xs) =
     (case stringify_value gap indent x of None \<Rightarrow> ''null'' | Some t \<Rightarrow> t)
       # stringify_elems gap indent xs"
| "stringify_props gap indent [] = []"
| "stringify_props gap indent ((k, v) # ms) =
     (case stringify_value gap indent v of
        None \<Rightarrow> stringify_props gap indent ms
      | Some t \<Rightarrow> (quote k @ '':'' @ (if gap = [] then [] else '' '') @ t)
                   # stringify_props gap indent ms)"

text \<open>\<open>JSON.stringify(v, null, 2)\<close>.\<close>

definition JSON_stringify2 :: "json \<Rightarrow> string option" where
  "JSON_stringify2 v = stringify_value ''  '' [] v"

text \<open>A value interpolated in a template literal: \<open>undefined\<close> prints as its name.\<close>

definition interpolate :: "string option \<Rightarrow> string" where
  "interpolate t = (case t of None \<Rightarrow> ''undefined'' | Some u \<Rightarrow> u)"

record AOResult =
  Output :: json
  Messages :: "json list"
  Spawns :: "json list"
  Error :: json

definition formatAOResult :: "AOResult \<Rightarrow> string" where
  "formatAOResult result =
     (let lines =
        [''Output: '' @ interpolate (JSON_stringify2 (Output result)),
         ''Messages: '' @ nat_to_string (length (Messages result)) @ '' message(s)'',
         ''Spawns: '' @ nat_to_string (length (Spawns result)) @ '' spawn(s)'',
         ''Error: '' @ (if truthy (Error result)
                        then interpolate (JSON_stringify2 (Error result)) else ''None'')]
      in join nl lines)"

section \<open>The service adapter (services/AOService)\<close>

subsection \<open>Configuration\<close>

datatype ao_mode = legacy | mainnet

text \<open>
  \<open>AOServiceConfig\<close>, the configuration given to the constructor. An absent field is
  \<open>None\<close>; an absent wallet is \<open>JUndefined\<close>.
\<close>

record AOServiceConfig =
  wallet :: json
  gatewayUrl :: "string option"
  graphqlUrl :: "string option"
  muUrl :: "string option"
  cuUrl :: "string option"
  mode :: "ao_mode option"
  defaultTimeout :: "int option"

text \<open>The constructor's default \<open>config = {}\<close>.\<close>

definition empty_config :: AOServiceConfig where
  "empty_config =
     \<lparr>wallet = JUndefined, gatewayUrl = None, graphqlUrl = None, muUrl = None, cuUrl = None,
      mode = None, defaultTimeout = None\<rparr>"

text \<open>
  The process-wide configuration that the plugin stores in \<open>global.__aoConfig\<close>. The
  service reads it as \<open>config\<close>; it is \<open>None\<close> when the plugin has stored nothing.
\<close>

record GlobalConfig =
  AO_API_KEY :: "string option"
  AO_GATEWAY_URL :: "string option"
  AO_GRAPHQL_URL :: "string option"
  AO_MU_URL :: "string option"
  AO_CU_URL :: "string option"
  AO_MODE :: "ao_mode option"
  AO_DEFAULT_TIMEOUT :: "int option"

text \<open>\<open>config?.FIELD\<close>: \<open>undefined\<close> when \<open>config\<close> itself is.\<close>

definition opt_chain :: "(GlobalConfig \<Rightarrow> 'a option) \<Rightarrow> GlobalConfig option \<Rightarrow> 'a option" where
  "opt_chain field g = (case g of None \<Rightarrow> None | Some c \<Rightarrow> field c)"

text \<open>Truthiness of an optional string and of an optional mode (both mode names are non-empty).\<close>

definition truthy_str :: "string option \<Rightarrow> bool" where
  "truthy_str v = (case v of None \<Rightarrow> False | Some t \<Rightarrow> t \<noteq> [])"

definition truthy_mode :: "ao_mode option \<Rightarrow> bool" where
  "truthy_mode v = (case v of None \<Rightarrow> False | Some t \<Rightarrow> True)"

text \<open>\<open>a || b\<close>: \<open>a\<close> when it is truthy, \<open>b\<close> otherwise.\<close>

definition or_str :: "string option \<Rightarrow> string option \<Rightarrow> string option" where
  "or_str a b = (if truthy_str a then a else b)"

definition or_mode :: "ao_mode option \<Rightarrow> ao_mode option \<Rightarrow> ao_mode option" where
  "or_mode a b = (if truthy_mode a then a else b)"

text \<open>The object given to \<open>connect\<close>; a key that was never assigned is \<open>None\<close>.\<close>

record ConnectArgs =
  MODE :: "ao_mode option"
  GATEWAY_URL :: "string option"
  GRAPHQL_URL :: "string option"
  MU_URL :: "string option"
  CU_URL :: "string option"

definition no_connectArgs :: ConnectArgs where
  "no_connectArgs =
     \<lparr>MODE = None, GATEWAY_URL = None, GRAPHQL_URL = None, MU_URL = None, CU_URL = None\<rparr>"

text \<open>\<open>Object.keys(connectArgs).length\<close>.\<close>

definition keys_length :: "ConnectArgs \<Rightarrow> nat" where
  "keys_length a =
     (if MODE a = None then 0 else 1) + (if GATEWAY_URL a = None then 0 else 1)
     + (if GRAPHQL_URL a = None then 0 else 1) + (if MU_URL a = None then 0 else 1)
     + (if CU_URL a = None then 0 else 1)"

text \<open>Lines 49 to 64 of the service: the five guarded assignments to \<open>connectArgs\<close>.\<close>

definition build_connectArgs :: "AOServiceConfig \<Rightarrow> GlobalConfig option \<Rightarrow> ConnectArgs" where
  "build_connectArgs cfg g =
     (let a0 = no_connectArgs;
          a1 = (if truthy_mode (or_mode (mode cfg) (opt_chain AO_MODE g))
                then a0\<lparr>MODE := or_mode (mode cfg) (opt_chain AO_MODE g)\<rparr> else a0);
          a2 = (if truthy_str (or_str (gatewayUrl cfg) (opt_chain AO_GATEWAY_URL g))
                then a1\<lparr>GATEWAY_URL := or_str (gatewayUrl cfg) (opt_chain AO_GATEWAY_URL g)\<rparr>
                else a1);
          a3 = (if truthy_str (or_str (graphqlUrl cfg) (opt_chain AO_GRAPHQL_URL g))
                then a2\<lparr>GRAPHQL_URL := or_str (graphqlUrl cfg) (opt_chain AO_GRAPHQL_URL g)\<rparr>
                else a2);
          a4 = (if truthy_str (or_str (muUrl cfg) (opt_chain AO_MU_URL g))
                then a3\<lparr>MU_URL := or_str (muUrl cfg) (opt_chain AO_MU_URL g)\<rparr> else a3);
          a5 = (if truthy_str (or_str (cuUrl cfg) (opt_chain AO_CU_URL g))
                then a4\<lparr>CU_URL := or_str (cuUrl cfg) (opt_chain AO_CU_URL g)\<rparr> else a4)
      in a5)"

subsection \<open>The external client and the trace of calls\<close>

type_synonym tag = "string \<times> string"

text \<open>The signer that \<open>createSigner\<close> derives from a wallet; the adapter never looks inside.\<close>

datatype signer = Signer json

text \<open>
  The primitives of the external client library. Each may throw. Their behaviour is a
  parameter of every operation of the adapter.
\<close>

record ext_client =
  ext_createSigner :: "json \<Rightarrow> thrown + signer"
  ext_connect :: "ConnectArgs \<Rightarrow> thrown + unit"
  ext_spawn :: "string \<Rightarrow> string \<Rightarrow> signer option \<Rightarrow> tag list option \<Rightarrow> string option
                \<Rightarrow> thrown + string"
  ext_message :: "string \<Rightarrow> string \<Rightarrow> tag list option \<Rightarrow> string option \<Rightarrow> signer option
                  \<Rightarrow> thrown + string"
  ext_result :: "string \<Rightarrow> string \<Rightarrow> thrown + AOResult"
  ext_dryrun :: "string \<Rightarrow> string \<Rightarrow> tag list option \<Rightarrow> string option \<Rightarrow> thrown + AOResult"

text \<open>
  What a call leaves behind, in order: the operations of the adapter that were entered
  and the primitives of the external client that were called, with their arguments.
\<close>

datatype event =
    Invoke_spawnProcess string string "tag list option" "string option"
  | Invoke_sendMessage string string "tag list option" "string option"
  | Invoke_readResult string string
  | Invoke_dryRun string string "tag list option" "string option"
  | Call_createSigner json
  | Call_connect ConnectArgs
  | Call_spawn string string "signer option" "tag list option" "string option"
  | Call_message string string "tag list option" "string option" "signer option"
  | Call_result string string
  | Call_dryrun string string "tag list option" "string option"

fun is_external :: "event \<Rightarrow> bool" where
  "is_external (Call_createSigner w) = True"
| "is_external (Call_connect a) = True"
| "is_external (Call_spawn m s sg t d) = True"
| "is_external (Call_message p d t a sg) = True"
| "is_external (Call_result p m) = True"
| "is_external (Call_dryrun p d t a) = True"
| "is_external e = False"

subsection \<open>The service\<close>

record AOService =
  signer :: "signer option"
  initialized :: bool
  config :: AOServiceConfig

text \<open>\<open>new AOService(runtime, config)\<close>.\<close>

definition new_AOService :: "AOServiceConfig \<Rightarrow> AOService" where
  "new_AOService cfg = \<lparr>signer = None, initialized = False, config = cfg\<rparr>"

definition getSigner :: "AOService \<Rightarrow> signer option" where
  "getSigner s = signer s"

definition isInitialized :: "AOService \<Rightarrow> bool" where
  "isInitialized s = initialized s"

text \<open>
  \<open>initialize\<close>: the result (\<open>Inl\<close> what the \<open>catch\<close> rethrows), the service afterwards
  and the trace. Logging is left out: it takes no part in the control flow.
\<close>

definition initialize ::
  "ext_client \<Rightarrow> GlobalConfig option \<Rightarrow> AOService \<Rightarrow> (thrown + unit) \<times> AOService \<times> event list"
where
  "initialize ext g s =
     (if truthy (wallet (config s)) then
        (case ext_createSigner ext (wallet (config s)) of
           Inl e \<Rightarrow> (Inl e, s, [Call_createSigner (wallet (config s))])
         | Inr sg \<Rightarrow>
            (let s1 = s\<lparr>signer := Some sg\<rparr>;
                 connectArgs = build_connectArgs (config s1) g
             in if keys_length connectArgs > 0 then
                  (case ext_connect ext connectArgs of
                     Inl e \<Rightarrow> (Inl e, s1,
                               [Call_createSigner (wallet (config s)), Call_connect connectArgs])
                   | Inr u \<Rightarrow> (Inr (), s1\<lparr>initialized := True\<rparr>,
                               [Call_createSigner (wallet (config s)), Call_connect connectArgs]))
                else (Inr (), s1\<lparr>initialized := True\<rparr>,
                      [Call_createSigner (wallet (config s))])))
      else
        (let connectArgs = build_connectArgs (config s) g
         in if keys_length connectArgs > 0 then
              (case ext_connect ext connectArgs of
                 Inl e \<Rightarrow> (Inl e, s, [Call_connect connectArgs])
               | Inr u \<Rightarrow> (Inr (), s\<lparr>initialized := True\<rparr>, [Call_connect connectArgs]))
            else (Inr (), s\<lparr>initialized := True\<rparr>, [])))"

definition stop :: "AOService \<Rightarrow> (thrown + unit) \<times> AOService" where
  "stop s = (Inr (), s\<lparr>initialized := False, signer := None\<rparr>)"

definition ensureInitialized :: "AOService \<Rightarrow> thrown + unit" where
  "ensureInitialized s =
     (if \<not> initialized s
      then Inl (PlainError ''Error'' ''AOService not initialized. Call initialize() first.'')
      else Inr ())"

text \<open>
  The four operations. Each \<open>catch\<close> logs and rethrows what it caught, so the result of
  the external call is the result of the operation.
\<close>

definition spawnProcess ::
  "ext_client \<Rightarrow> AOService \<Rightarrow> string \<Rightarrow> string \<Rightarrow> tag list option \<Rightarrow> string option
   \<Rightarrow> (thrown + string) \<times> event list"
where
  "spawnProcess ext s modul scheduler tags dat =
     (case ensureInitialized s of
        Inl e \<Rightarrow> (Inl e, [Invoke_spawnProcess modul scheduler tags dat])
      | Inr u \<Rightarrow>
         (case ext_spawn ext modul scheduler (signer s) tags dat of
            Inl e \<Rightarrow> (Inl e, [Invoke_spawnProcess modul scheduler tags dat,
                               Call_spawn modul scheduler (signer s) tags dat])
          | Inr processId \<Rightarrow>
              (Inr processId, [Invoke_spawnProcess modul scheduler tags dat,
                               Call_spawn modul scheduler (signer s) tags dat])))"

definition sendMessage ::
  "ext_client \<Rightarrow> AOService \<Rightarrow> string \<Rightarrow> string \<Rightarrow> tag list option \<Rightarrow> string option
   \<Rightarrow> (thrown + string) \<times> event list"
where
  "sendMessage ext s process dat tags anchor =
     (case ensureInitialized s of
        Inl e \<Rightarrow> (Inl e, [Invoke_sendMessage process dat tags anchor])
      | Inr u \<Rightarrow>
         (case ext_message ext process dat tags anchor (signer s) of
            Inl e \<Rightarrow> (Inl e, [Invoke_sendMessage process dat tags anchor,
                               Call_message process dat tags anchor (signer s)])
          | Inr messageId \<Rightarrow>
              (Inr messageId, [Invoke_sendMessage process dat tags anchor,
                               Call_message process dat tags anchor (signer s)])))"

definition readResult ::
  "ext_client \<Rightarrow> AOService \<Rightarrow> string \<Rightarrow> string \<Rightarrow> (thrown + AOResult) \<times> event list"
where
  "readResult ext s process messageId =
     (case ensureInitialized s of
        Inl e \<Rightarrow> (Inl e, [Invoke_readResult process messageId])
      | Inr u \<Rightarrow>
         (case ext_result ext process messageId of
            Inl e \<Rightarrow> (Inl e, [Invoke_readResult process messageId, Call_result process messageId])
          | Inr resultData \<Rightarrow>
              (Inr resultData,
               [Invoke_readResult process messageId, Call_result process messageId])))"

definition dryRun ::
  "ext_client \<Rightarrow> AOService \<Rightarrow> string \<Rightarrow> string \<Rightarrow> tag list option \<Rightarrow> string option
   \<Rightarrow> (thrown + AOResult) \<times> event list"
where
  "dryRun ext s process dat tags anchor =
     (case ensureInitialized s of
        Inl e \<Rightarrow> (Inl e, [Invoke_dryRun process dat tags anchor])
      | Inr u \<Rightarrow>
         (case ext_dryrun ext process dat tags anchor of
            Inl e \<Rightarrow> (Inl e, [Invoke_dryRun process dat tags anchor,
                               Call_dryrun process dat tags anchor])
          | Inr resultData \<Rightarrow>
              (Inr resultData, [Invoke_dryRun process dat tags anchor,
                                Call_dryrun process dat tags anchor])))"

section \<open>The pre-checks of the actions (actions/*.action)\<close>

subsection \<open>The schemas\<close>

text \<open>
  The schemas are built from the combinators of the validation library. A schema is the
  set of values it accepts: \<open>parseAsync\<close> resolves on these and rejects on all others.
  An object schema reads each key of its shape from the input, a missing key reading as
  \<open>undefined\<close>, and ignores the other keys; it accepts plain objects only.
\<close>

type_synonym schema = "json \<Rightarrow> bool"

definition get_prop :: "(string \<times> json) list \<Rightarrow> string \<Rightarrow> json" where
  "get_prop ms k = (case map_of ms k of None \<Rightarrow> JUndefined | Some v \<Rightarrow> v)"

definition z_string :: schema where
  "z_string v = (case v of JStr t \<Rightarrow> True | _ \<Rightarrow> False)"

definition z_string_min :: "nat \<Rightarrow> schema" where
  "z_string_min n v = (case v of JStr t \<Rightarrow> n \<le> length t | _ \<Rightarrow> False)"

definition z_optional :: "schema \<Rightarrow> schema" where
  "z_optional p v = (v = JUndefined \<or> p v)"

definition z_array :: "schema \<Rightarrow> schema" where
  "z_array p v = (case v of JArr xs \<Rightarrow> list_all p xs | _ \<Rightarrow> False)"

definition z_object :: "(string \<times> schema) list \<Rightarrow> schema" where
  "z_object shape v =
     (case v of JObj ms \<Rightarrow> list_all (\<lambda>(k, p). p (get_prop ms k)) shape | _ \<Rightarrow> False)"

definition tags_schema :: schema where
  "tags_schema = z_optional (z_array (z_object [(''name'', z_string), (''value'', z_string)]))"

definition spawnProcessSchema :: schema where
  "spawnProcessSchema =
     z_object [(''module'', z_string_min 1), (''scheduler'', z_string_min 1),
               (''data'', z_optional z_string), (''tags'', tags_schema)]"

definition sendMessageSchema :: schema where
  "sendMessageSchema =
     z_object [(''process'', z_string_min 1), (''data'', z_string_min 1),
               (''tags'', tags_schema), (''anchor'', z_optional z_string)]"

definition readResultSchema :: schema where
  "readResultSchema =
     z_object [(''process'', z_string_min 1), (''messageId'', z_string_min 1)]"

definition dryRunSchema :: schema where
  "dryRunSchema =
     z_object [(''process'', z_string_min 1), (''data'', z_string_min 1),
               (''tags'', tags_schema), (''anchor'', z_optional z_string)]"

subsection \<open>validate\<close>

text \<open>
  The host's runtime: \<open>getService('ao')\<close> throws, or returns the service or nothing.
\<close>

record runtime =
  getService :: "thrown + AOService option"

text \<open>
  The inner \<open>try\<close> of every \<open>validate\<close>: a text that is a string goes through
  \<open>JSON.parse\<close>, which is a parameter here and may throw; any other value is taken as
  it is.
\<close>

definition extract_content :: "(string \<Rightarrow> thrown + json) \<Rightarrow> json \<Rightarrow> thrown + json" where
  "extract_content JSON_parse text = (case text of JStr t \<Rightarrow> JSON_parse t | v \<Rightarrow> Inr v)"

text \<open>
  The body that the four \<open>validate\<close> functions share word for word, with the schema as a
  parameter. The second component is the trace: no path of \<open>validate\<close> enters an
  operation of the adapter or calls the external client.
\<close>

definition validate_body ::
  "schema \<Rightarrow> (string \<Rightarrow> thrown + json) \<Rightarrow> runtime \<Rightarrow> json \<Rightarrow> bool \<times> event list"
where
  "validate_body schema JSON_parse rt text =
     (case getService rt of
        Inl e \<Rightarrow> (False, [])
      | Inr None \<Rightarrow> (False, [])
      | Inr (Some service) \<Rightarrow>
          if \<not> isInitialized service then (False, [])
          else (case extract_content JSON_parse text of
                  Inl e \<Rightarrow> (False, [])
                | Inr content \<Rightarrow> if schema content then (True, []) else (False, [])))"

definition spawnAOProcess_validate ::
  "(string \<Rightarrow> thrown + json) \<Rightarrow> runtime \<Rightarrow> json \<Rightarrow> bool \<times> event list" where
  "spawnAOProcess_validate = validate_body spawnProcessSchema"

definition sendAOMessage_validate ::
  "(string \<Rightarrow> thrown + json) \<Rightarrow> runtime \<Rightarrow> json \<Rightarrow> bool \<times> event list" where
  "sendAOMessage_validate = validate_body sendMessageSchema"

definition readAOResult_validate ::
  "(string \<Rightarrow> thrown + json) \<Rightarrow> runtime \<Rightarrow> json \<Rightarrow> bool \<times> event list" where
  "readAOResult_validate = validate_body readResultSchema"

definition dryRunAO_validate ::
  "(string \<Rightarrow> thrown + json) \<Rightarrow> runtime \<Rightarrow> json \<Rightarrow> bool \<times> event list" where
  "dryRunAO_validate = validate_body dryRunSchema"

section \<open>The specification's wording, for comparison\<close>

text \<open>
  The classification table of the specification: the rules in their order, each with the
  substrings that select it; the first rule with a substring in the message wins, and
  the fallback is \<open>PROTOCOL_ERROR\<close>.
\<close>

definition classification_rules :: "(string list \<times> AOErrorCode) list" where
  "classification_rules =
     [([''insufficient funds''], INSUFFICIENT_BALANCE),
      ([''network'', ''connection''], NETWORK_ERROR),
      ([''reverted''], TRANSACTION_FAILED)]"

definition classify_first_match :: "string \<Rightarrow> AOErrorCode" where
  "classify_first_match m =
     (case find (\<lambda>(subs, c). list_ex (str_includes m) subs) classification_rules of
        None \<Rightarrow> PROTOCOL_ERROR
      | Some (subs, c) \<Rightarrow> c)"

text \<open>
  The precedence rule of the specification for one field: the instance value if
  present, else the process-wide value if present, else unset.
\<close>

definition prefer_field :: "('a option \<Rightarrow> bool) \<Rightarrow> 'a option \<Rightarrow> 'a option \<Rightarrow> 'a option" where
  "prefer_field present inst proc = (if present inst then inst else if present proc then proc else None)"

text \<open>
  A count in the formatted text is the number in decimal: digits only, no leading zero,
  and the value they denote is the number.
\<close>

definition is_decimal_digit :: "char \<Rightarrow> bool" where
  "is_decimal_digit c = (c \<in> set ''0123456789'')"

definition digit_value :: "char \<Rightarrow> nat" where
  "digit_value c = of_char c - 48"

definition decimal_value :: "string \<Rightarrow> nat" where
  "decimal_value ds = foldl (\<lambda>acc c. 10 * acc + digit_value c) 0 ds"


section \<open>Concrete inputs\<close>

text \<open>An external client that answers as the mocks of the test suite do.\<close>

definition test_result :: AOResult where
  "test_result =
     \<lparr>Output = JObj [(''status'', JStr ''success'')], Messages = [], Spawns = [], Error = JNull\<rparr>"

definition test_client :: ext_client where
  "test_client =
     \<lparr>ext_createSigner = (\<lambda>w. Inr (Signer w)),
      ext_connect = (\<lambda>a. Inr ()),
      ext_spawn = (\<lambda>m s sg t d. Inr ''process-123''),
      ext_message = (\<lambda>p d t a sg. Inr ''message-123''),
      ext_result = (\<lambda>p m. Inr test_result),
      ext_dryrun = (\<lambda>p d t a. Inr test_result)\<rparr>"

text \<open>
  A result with twelve messages, three spawns, an error object, and an output that
  needs escaping, nesting and an exponent.
\<close>

definition busy_result :: AOResult where
  \<open>busy_result =
     \<lparr>Output = JObj [(''balance'', JNum (NonZero ''1e+21'')),
                     (''note'', JStr (''a"b'' @ [CHR 0x5C, CHR 0x0A])),
                     (''tags'', JArr [JStr ''x'', JUndefined, JNum NaN]),
                     (''skipped'', JUndefined),
                     (''empty'', JObj [])],
      Messages = replicate 12 (JObj []),
      Spawns = [JStr ''p1'', JStr ''p2'', JStr ''p3''],
      Error = JObj [(''code'', JNum (NonZero ''7''))]\<rparr>\<close>



text \<open>The custom gateway configuration of the test suite.\<close>

definition gateway_config :: AOServiceConfig where
  "gateway_config =
     empty_config\<lparr>gatewayUrl := Some ''https://gateway.test'',
                  graphqlUrl := Some ''https://graphql.test'',
                  muUrl := Some ''https://mu.test'',
                  cuUrl := Some ''https://cu.test'',
                  mode := Some legacy\<rparr>"

definition timeout_config :: AOServiceConfig where
  "timeout_config = empty_config\<lparr>defaultTimeout := Some 5000\<rparr>"

text \<open>The process-wide configuration that the plugin's schema yields with an API key set.\<close>

definition plugin_config :: GlobalConfig where
  "plugin_config =
     \<lparr>AO_API_KEY = Some ''secret-key'',
      AO_GATEWAY_URL = Some ''https://arweave.net'',
      AO_GRAPHQL_URL = Some ''https://arweave.net/graphql'',
      AO_MU_URL = None,
      AO_CU_URL = None,
      AO_MODE = Some legacy,
      AO_DEFAULT_TIMEOUT = Some 30000\<rparr>"

text \<open>Payloads of the test suite, as texts and as the values \<open>JSON.parse\<close> gives for them.\<close>

definition spawn_text :: string where
  \<open>spawn_text = ''{"module":"module-123","scheduler":"scheduler-123"}''\<close>

definition spawn_payload :: json where
  "spawn_payload = JObj [(''module'', JStr ''module-123''), (''scheduler'', JStr ''scheduler-123'')]"

definition send_text :: string where
  \<open>send_text = ''{"process":"process-123","data":"test message"}''\<close>

definition send_payload :: json where
  "send_payload = JObj [(''process'', JStr ''process-123''), (''data'', JStr ''test message'')]"

definition read_text :: string where
  \<open>read_text = ''{"process":"process-123","messageId":"message-123"}''\<close>

definition read_payload :: json where
  "read_payload = JObj [(''process'', JStr ''process-123''), (''messageId'', JStr ''message-123'')]"

definition no_process_text :: string where
  \<open>no_process_text = ''{"data":"test message"}''\<close>

definition no_process_payload :: json where
  "no_process_payload = JObj [(''data'', JStr ''test message'')]"

definition test_parse :: "string \<Rightarrow> thrown + json" where
  "test_parse t =
     (if t = spawn_text then Inr spawn_payload
      else if t = send_text then Inr send_payload
      else if t = read_text then Inr read_payload
      else if t = no_process_text then Inr no_process_payload
      else Inl (PlainError ''SyntaxError'' ''Unexpected token''))"

definition stopped_runtime :: runtime where
  "stopped_runtime = \<lparr>getService = Inr (Some (new_AOService empty_config))\<rparr>"

definition running_runtime :: runtime where
  "running_runtime =
     \<lparr>getService = Inr (Some ((new_AOService empty_config)\<lparr>initialized := True\<rparr>))\<rparr>"

section \<open>Substrings\<close>

lemma starts_with_iff: "starts_with s t \<longleftrightarrow> (\<exists>q. s = t @ q)"
  by (induction s t rule: starts_with.induct) auto

text \<open>\<open>str_includes\<close> is the substring relation.\<close>

lemma str_includes_iff: "str_includes s t \<longleftrightarrow> (\<exists>p q. s = p @ t @ q)"
proof (induction s)
  case Nil
  then show ?case by simp
next
  case (Cons c cs)
  show ?case
  proof
    assume "str_includes (c # cs) t"
    then consider "starts_with (c # cs) t" | "str_includes cs t" by auto
    then show "\<exists>p q. c # cs = p @ t @ q"
    proof cases
      case 1
      then obtain q where "c # cs = t @ q" using starts_with_iff by blast
      then have "c # cs = [] @ t @ q" by simp
      then show ?thesis by blast
    next
      case 2
      then obtain p q where "cs = p @ t @ q" using Cons.IH by blast
      then have "c # cs = (c # p) @ t @ q" by simp
      then show ?thesis by blast
    qed
  next
    assume "\<exists>p q. c # cs = p @ t @ q"
    then obtain p q where pq: "c # cs = p @ t @ q" by blast
    show "str_includes (c # cs) t"
    proof (cases p)
      case Nil
      with pq have "starts_with (c # cs) t" using starts_with_iff by auto
      then show ?thesis by simp
    next
      case (Cons a p')
      with pq have "cs = p' @ t @ q" by simp
      then have "str_includes cs t" using Cons.IH by blast
      then show ?thesis by simp
    qed
  qed
qed

lemma str_includes_suffix: "str_includes (p @ m) m"
  using str_includes_iff [of "p @ m" m] by (metis append_Nil2)

lemma str_includes_self: "str_includes m m"
  using str_includes_suffix [of "[]" m] by simp

lemma str_includes_empty: "str_includes n []"
  by (cases n) simp_all

lemma Error_toString_carries: "str_includes (Error_toString n m) m"
  unfolding Error_toString_def
  using str_includes_suffix [of "n @ '': ''" m] str_includes_self str_includes_empty by simp

section \<open>Decimal counts\<close>

lemma digit_char_table:
  "list_all (\<lambda>d. digit_value (digit_char d) = d \<and> is_decimal_digit (digit_char d)
                  \<and> (d = 0 \<or> digit_char d \<noteq> CHR ''0'') \<and> digit_char 0 = CHR ''0'')
     [0..<10]"
  by code_simp

lemma digit_char_value:
  assumes "d < 10"
  shows "digit_value (digit_char d) = d \<and> is_decimal_digit (digit_char d)"
  using digit_char_table assms by (simp add: list_all_iff)

lemma digit_char_zero:
  assumes "d < 10"
  shows "[digit_char d] = ''0'' \<or> digit_char d \<noteq> CHR ''0''"
  using digit_char_table assms by (auto simp: list_all_iff)

lemma decimal_value_snoc: "decimal_value (ds @ [c]) = 10 * decimal_value ds + digit_value c"
  by (simp add: decimal_value_def)

lemma nat_to_string_decimal: "decimal_value (nat_to_string n) = n"
proof (induction n rule: nat_to_string.induct)
  case (1 n)
  show ?case
  proof (cases "n < 10")
    case True
    then show ?thesis
      using digit_char_value [of n] by (simp add: nat_to_string.simps [of n] decimal_value_def)
  next
    case False
    then have "decimal_value (nat_to_string n)
                 = 10 * decimal_value (nat_to_string (n div 10))
                   + digit_value (digit_char (n mod 10))"
      by (simp add: nat_to_string.simps [of n] decimal_value_snoc)
    also have "\<dots> = 10 * (n div 10) + n mod 10"
      using "1.IH" [OF False] digit_char_value [of "n mod 10"] by simp
    finally show ?thesis by simp
  qed
qed

lemma nat_to_string_digits: "list_all is_decimal_digit (nat_to_string n)"
proof (induction n rule: nat_to_string.induct)
  case (1 n)
  show ?case
  proof (cases "n < 10")
    case True
    then show ?thesis
      using digit_char_value [of n] by (simp add: nat_to_string.simps [of n])
  next
    case False
    then show ?thesis
      using "1.IH" [OF False] digit_char_value [of "n mod 10"]
      by (simp add: nat_to_string.simps [of n])
  qed
qed

lemma nat_to_string_nonempty: "nat_to_string n \<noteq> []"
  by (simp add: nat_to_string.simps [of n])

lemma nat_to_string_canonical: "nat_to_string n = ''0'' \<or> hd (nat_to_string n) \<noteq> CHR ''0''"
proof (induction n rule: nat_to_string.induct)
  case (1 n)
  show ?case
  proof (cases "n < 10")
    case True
    then show ?thesis
      using digit_char_zero [of n] by (simp add: nat_to_string.simps [of n])
  next
    case False
    then have pos: "n div 10 \<noteq> 0" by simp
    have "decimal_value (nat_to_string (n div 10)) = n div 10" by (rule nat_to_string_decimal)
    with pos have "nat_to_string (n div 10) \<noteq> ''0''"
      by (auto simp: decimal_value_def digit_value_def)
    with "1.IH" [OF False] have "hd (nat_to_string (n div 10)) \<noteq> CHR ''0''" by simp
    with False show ?thesis
      using nat_to_string_nonempty [of "n div 10"]
      by (simp add: nat_to_string.simps [of n])
  qed
qed

section \<open>String conversion\<close>


section \<open>Error normalization\<close>

text \<open>
  C2. A failure that is an \<open>AOError\<close> comes back from \<open>handleAOError\<close> with its own
  code, message, details and suggestions, whatever its message contains: the substring
  classification is never consulted for it.
\<close>

theorem handleAOError_passes_AOError_through:
  "handleAOError (AOError c m d s) =
     Inr \<lparr>code = c, message = m, details = d, suggestions = s\<rparr>"
  by (simp add: toResponse_def)

text \<open>
  C4. For an \<open>Error\<close> that is not an \<open>AOError\<close>, the code of the response is the one
  the first matching rule of the specification's table selects: \<open>insufficient funds\<close>
  before \<open>network\<close> or \<open>connection\<close> before \<open>reverted\<close>, and \<open>PROTOCOL_ERROR\<close> when no
  rule matches, then with the generic message and suggestions. The details hold the
  message under \<open>originalError\<close>: the message itself for the three classified kinds,
  the error's string form, which contains the message, for the fallback.
\<close>

theorem handleAOError_classifies_by_first_match:
  "\<exists>r. handleAOError (PlainError n m) = Inr r
     \<and> code r = classify_first_match m
     \<and> code r =
         (if str_includes m ''insufficient funds'' then INSUFFICIENT_BALANCE
          else if str_includes m ''network'' \<or> str_includes m ''connection'' then NETWORK_ERROR
          else if str_includes m ''reverted'' then TRANSACTION_FAILED
          else PROTOCOL_ERROR)
     \<and> details r =
         JObj [(''originalError'',
                JStr (if classify_first_match m = PROTOCOL_ERROR then Error_toString n m else m))]
     \<and> str_includes (Error_toString n m) m
     \<and> (classify_first_match m = PROTOCOL_ERROR \<longrightarrow>
          message r = ''An unexpected error occurred''
          \<and> suggestions r =
              Some [''Please try again'', ''Contact support if the issue persists''])"
  by (simp add: classify_first_match_def classification_rules_def toResponse_def
      generic_error_def originalError_def Error_toString_carries)

theorem handleAOError_classifies_by_first_match_witness:
  "classify_first_match ''boom'' = PROTOCOL_ERROR
   \<and> handleAOError (PlainError ''Error'' ''boom'') =
       Inr \<lparr>code = PROTOCOL_ERROR, message = ''An unexpected error occurred'',
            details = JObj [(''originalError'', JStr ''Error: boom'')],
            suggestions = Some [''Please try again'', ''Contact support if the issue persists'']\<rparr>
   \<and> handleAOError (PlainError ''Error'' ''insufficient funds: network reverted'') =
       Inr \<lparr>code = INSUFFICIENT_BALANCE,
            message = ''Insufficient balance to complete transaction'',
            details = JObj [(''originalError'', JStr ''insufficient funds: network reverted'')],
            suggestions =
              Some [''Check your wallet balance'', ''Ensure you have enough AR for fees'']\<rparr>
   \<and> handleAOError (PlainError ''Error'' ''connection reverted'') =
       Inr \<lparr>code = NETWORK_ERROR, message = ''Network connection error'',
            details = JObj [(''originalError'', JStr ''connection reverted'')],
            suggestions =
              Some [''Check your internet connection'', ''Verify gateway is accessible'']\<rparr>
   \<and> handleAOError (PlainError ''Error'' ''call reverted'') =
       Inr \<lparr>code = TRANSACTION_FAILED, message = ''Transaction reverted on chain'',
            details = JObj [(''originalError'', JStr ''call reverted'')],
            suggestions =
              Some [''Check transaction parameters'',
                    ''Ensure contract state allows this operation'']\<rparr>"
  using handleAOError_classifies_by_first_match [of "''Error''" "''boom''"]
    handleAOError_classifies_by_first_match [of "''Error''" "''insufficient funds: network reverted''"]
    handleAOError_classifies_by_first_match [of "''Error''" "''connection reverted''"]
    handleAOError_classifies_by_first_match [of "''Error''" "''call reverted''"]
  by (simp add: classify_first_match_def classification_rules_def toResponse_def
      generic_error_def originalError_def Error_toString_def)




section \<open>Result formatting\<close>

text \<open>
  C6. The formatted text is four parts separated by newlines, in the order Output,
  Messages, Spawns, Error, the last being \<open>None\<close> when the error is falsy. The two
  counts are printed in decimal: digits only, denoting the count, with no leading zero.
  The result of the specification's example is the text the specification gives.
\<close>

theorem formatAOResult_four_lines:
  \<open>formatAOResult r =
     ''Output: '' @ interpolate (JSON_stringify2 (Output r)) @ nl
     @ ''Messages: '' @ nat_to_string (length (Messages r)) @ '' message(s)'' @ nl
     @ ''Spawns: '' @ nat_to_string (length (Spawns r)) @ '' spawn(s)'' @ nl
     @ ''Error: '' @ (if truthy (Error r) then interpolate (JSON_stringify2 (Error r))
                      else ''None'')
   \<and> decimal_value (nat_to_string n) = n
   \<and> list_all is_decimal_digit (nat_to_string n)
   \<and> (nat_to_string n = ''0'' \<or> hd (nat_to_string n) \<noteq> CHR ''0'')
   \<and> formatAOResult
        \<lparr>Output = JObj [(''status'', JStr ''success'')], Messages = [], Spawns = [],
         Error = JNull\<rparr> =
       ''Output: {'' @ nl @ ''  "status": "success"'' @ nl @ ''}'' @ nl
       @ ''Messages: 0 message(s)'' @ nl @ ''Spawns: 0 spawn(s)'' @ nl @ ''Error: None''\<close>
proof (intro conjI)
  show \<open>formatAOResult r =
     ''Output: '' @ interpolate (JSON_stringify2 (Output r)) @ nl
     @ ''Messages: '' @ nat_to_string (length (Messages r)) @ '' message(s)'' @ nl
     @ ''Spawns: '' @ nat_to_string (length (Spawns r)) @ '' spawn(s)'' @ nl
     @ ''Error: '' @ (if truthy (Error r) then interpolate (JSON_stringify2 (Error r))
                      else ''None'')\<close>
    by (simp add: formatAOResult_def)
  show "decimal_value (nat_to_string n) = n"
    by (rule nat_to_string_decimal)
  show "list_all is_decimal_digit (nat_to_string n)"
    by (rule nat_to_string_digits)
  show "nat_to_string n = ''0'' \<or> hd (nat_to_string n) \<noteq> CHR ''0''"
    by (rule nat_to_string_canonical)
  show \<open>formatAOResult
        \<lparr>Output = JObj [(''status'', JStr ''success'')], Messages = [], Spawns = [],
         Error = JNull\<rparr> =
       ''Output: {'' @ nl @ ''  "status": "success"'' @ nl @ ''}'' @ nl
       @ ''Messages: 0 message(s)'' @ nl @ ''Spawns: 0 spawn(s)'' @ nl @ ''Error: None''\<close>
    by code_simp
qed

text \<open>
  The same on a result with twelve messages, three spawns and an error object, whose
  output has a number in exponent form, a string to escape, an array with an
  \<open>undefined\<close> and a \<open>NaN\<close> element, an \<open>undefined\<close> property and an empty object.
\<close>

theorem formatAOResult_four_lines_witness:
  \<open>formatAOResult busy_result =
     ''Output: {'' @ nl
     @ ''  "balance": 1e+21,'' @ nl
     @ ''  "note": "a'' @ [CHR 0x5C] @ ''"b'' @ [CHR 0x5C, CHR 0x5C, CHR 0x5C] @ ''n",'' @ nl
     @ ''  "tags": ['' @ nl
     @ ''    "x",'' @ nl
     @ ''    null,'' @ nl
     @ ''    null'' @ nl
     @ ''  ],'' @ nl
     @ ''  "empty": {}'' @ nl
     @ ''}'' @ nl
     @ ''Messages: 12 message(s)'' @ nl
     @ ''Spawns: 3 spawn(s)'' @ nl
     @ ''Error: {'' @ nl
     @ ''  "code": 7'' @ nl
     @ ''}''
   \<and> nat_to_string 12 = ''12''
   \<and> decimal_value ''12'' = 12
   \<and> hd (nat_to_string 12) \<noteq> CHR ''0''\<close>
proof -
  have twelve: "nat_to_string 12 = ''12''" and three: "nat_to_string 3 = ''3''"
    by code_simp+
  have out: \<open>interpolate (JSON_stringify2 (Output busy_result)) =
     ''{'' @ nl
     @ ''  "balance": 1e+21,'' @ nl
     @ ''  "note": "a'' @ [CHR 0x5C] @ ''"b'' @ [CHR 0x5C, CHR 0x5C, CHR 0x5C] @ ''n",'' @ nl
     @ ''  "tags": ['' @ nl
     @ ''    "x",'' @ nl
     @ ''    null,'' @ nl
     @ ''    null'' @ nl
     @ ''  ],'' @ nl
     @ ''  "empty": {}'' @ nl
     @ ''}''\<close>
    by code_simp
  have err: \<open>truthy (Error busy_result)\<close>
    \<open>interpolate (JSON_stringify2 (Error busy_result)) = ''{'' @ nl @ ''  "code": 7'' @ nl @ ''}''\<close>
    by code_simp+
  have counts: "length (Messages busy_result) = 12" "length (Spawns busy_result) = 3"
    by (simp_all add: busy_result_def)
  show ?thesis
    using formatAOResult_four_lines [of busy_result 12] twelve three out err counts
    by (simp add: decimal_value_def digit_value_def)
qed

section \<open>The lifecycle of the service\<close>

text \<open>
  C7. \<open>stop\<close> succeeds from every state; afterwards the service is not initialized and
  has no signer; and stopping again changes nothing.
\<close>

theorem stop_clears_state:
  "fst (stop s) = Inr ()
   \<and> isInitialized (snd (stop s)) = False
   \<and> getSigner (snd (stop s)) = None
   \<and> stop (snd (stop s)) = stop s"
  by (simp add: stop_def isInitialized_def getSigner_def)






section \<open>The guard of the operations\<close>

text \<open>
  C1, as the service has it. An operation called on a service that is not initialized
  fails with a plain \<open>Error\<close> whose message is
  \<open>AOService not initialized. Call initialize() first.\<close>, and calls no primitive of the
  external client: the trace holds the entry into the operation and nothing else.
\<close>

theorem operations_guarded:
  assumes "\<not> isInitialized s"
  shows
    "spawnProcess ext s modul scheduler tags spawn_data =
       (Inl (PlainError ''Error'' ''AOService not initialized. Call initialize() first.''),
        [Invoke_spawnProcess modul scheduler tags spawn_data])
     \<and> sendMessage ext s process dat tags anchor =
       (Inl (PlainError ''Error'' ''AOService not initialized. Call initialize() first.''),
        [Invoke_sendMessage process dat tags anchor])
     \<and> readResult ext s process messageId =
       (Inl (PlainError ''Error'' ''AOService not initialized. Call initialize() first.''),
        [Invoke_readResult process messageId])
     \<and> dryRun ext s process dat tags anchor =
       (Inl (PlainError ''Error'' ''AOService not initialized. Call initialize() first.''),
        [Invoke_dryRun process dat tags anchor])
     \<and> filter is_external (snd (spawnProcess ext s modul scheduler tags spawn_data)) = []
     \<and> filter is_external (snd (sendMessage ext s process dat tags anchor)) = []
     \<and> filter is_external (snd (readResult ext s process messageId)) = []
     \<and> filter is_external (snd (dryRun ext s process dat tags anchor)) = []"
  using assms
  by (simp add: spawnProcess_def sendMessage_def readResult_def dryRun_def
      ensureInitialized_def isInitialized_def)

theorem operations_guarded_witness:
  "\<not> isInitialized (new_AOService empty_config)
   \<and> spawnProcess test_client (new_AOService empty_config) ''module-123'' ''scheduler-123''
       None None =
       (Inl (PlainError ''Error'' ''AOService not initialized. Call initialize() first.''),
        [Invoke_spawnProcess ''module-123'' ''scheduler-123'' None None])
   \<and> fst (sendMessage test_client (new_AOService empty_config) ''process-123'' ''test data''
       None None) =
       Inl (PlainError ''Error'' ''AOService not initialized. Call initialize() first.'')
   \<and> fst (readResult test_client (new_AOService empty_config) ''process-123'' ''message-123'') =
       Inl (PlainError ''Error'' ''AOService not initialized. Call initialize() first.'')
   \<and> fst (dryRun test_client (new_AOService empty_config) ''process-123'' ''balance''
       None None) =
       Inl (PlainError ''Error'' ''AOService not initialized. Call initialize() first.'')"
proof -
  have u: "\<not> isInitialized (new_AOService empty_config)"
    by (simp add: isInitialized_def new_AOService_def)
  show ?thesis
    using u
      operations_guarded [OF u, where ext = test_client and modul = "''module-123''"
        and scheduler = "''scheduler-123''" and tags = None and spawn_data = None
        and process = "''process-123''" and dat = "''test data''" and anchor = None
        and messageId = "''message-123''"]
      operations_guarded [OF u, where ext = test_client and tags = None
        and process = "''process-123''" and dat = "''balance''" and anchor = None]
    by simp
qed

text \<open>
  The failure of the guard is no \<open>AOError\<close>: it carries no code of the taxonomy, and
  \<open>handleAOError\<close> files it under \<open>PROTOCOL_ERROR\<close>, not \<open>SERVICE_NOT_INITIALIZED\<close>.
\<close>

theorem guard_failure_not_in_taxonomy:
  "(case fst (spawnProcess test_client (new_AOService empty_config) ''module-123''
             ''scheduler-123'' None None) of
      Inl e \<Rightarrow> \<not> instanceof_AOError e
              \<and> (case handleAOError e of
                    Inl t \<Rightarrow> False
                  | Inr r \<Rightarrow> code r = PROTOCOL_ERROR \<and> code r \<noteq> SERVICE_NOT_INITIALIZED)
    | Inr processId \<Rightarrow> False)"
  by (simp add: spawnProcess_def ensureInitialized_def new_AOService_def generic_error_def
      toResponse_def)

section \<open>The resolution of the connection arguments\<close>

text \<open>
  C3, as the service has it. Five fields are resolved, each on its own: mode, gateway
  URL, GraphQL URL, message-unit URL and compute-unit URL take the instance value when
  it is present and non-empty, else the process-wide value when that is, else stay
  unset. The API key and the default timeout take no part: changing them on either side
  changes nothing in the arguments. Whatever \<open>initialize\<close> passes to \<open>connect\<close> is this
  resolved record, and it is passed only when some field of it is set.
\<close>

theorem connectArgs_resolution:
  "build_connectArgs cfg g =
     \<lparr>MODE = prefer_field truthy_mode (mode cfg) (opt_chain AO_MODE g),
      GATEWAY_URL = prefer_field truthy_str (gatewayUrl cfg) (opt_chain AO_GATEWAY_URL g),
      GRAPHQL_URL = prefer_field truthy_str (graphqlUrl cfg) (opt_chain AO_GRAPHQL_URL g),
      MU_URL = prefer_field truthy_str (muUrl cfg) (opt_chain AO_MU_URL g),
      CU_URL = prefer_field truthy_str (cuUrl cfg) (opt_chain AO_CU_URL g)\<rparr>
   \<and> build_connectArgs (cfg\<lparr>defaultTimeout := t\<rparr>)
         (map_option (\<lambda>c. c\<lparr>AO_API_KEY := k, AO_DEFAULT_TIMEOUT := t'\<rparr>) g)
       = build_connectArgs cfg g
   \<and> (\<forall>a. Call_connect a \<in> set (snd (snd (initialize ext g s))) \<longrightarrow>
          a = build_connectArgs (config s) g \<and> a \<noteq> no_connectArgs)"
proof (intro conjI)
  show "build_connectArgs cfg g =
     \<lparr>MODE = prefer_field truthy_mode (mode cfg) (opt_chain AO_MODE g),
      GATEWAY_URL = prefer_field truthy_str (gatewayUrl cfg) (opt_chain AO_GATEWAY_URL g),
      GRAPHQL_URL = prefer_field truthy_str (graphqlUrl cfg) (opt_chain AO_GRAPHQL_URL g),
      MU_URL = prefer_field truthy_str (muUrl cfg) (opt_chain AO_MU_URL g),
      CU_URL = prefer_field truthy_str (cuUrl cfg) (opt_chain AO_CU_URL g)\<rparr>"
    by (simp add: build_connectArgs_def Let_def no_connectArgs_def prefer_field_def
        or_str_def or_mode_def truthy_str_def truthy_mode_def split: option.splits)
  show "build_connectArgs (cfg\<lparr>defaultTimeout := t\<rparr>)
         (map_option (\<lambda>c. c\<lparr>AO_API_KEY := k, AO_DEFAULT_TIMEOUT := t'\<rparr>) g)
       = build_connectArgs cfg g"
    by (cases g) (simp_all add: build_connectArgs_def opt_chain_def)
  have zero: "keys_length no_connectArgs = 0"
    by (simp add: keys_length_def no_connectArgs_def)
  show "\<forall>a. Call_connect a \<in> set (snd (snd (initialize ext g s))) \<longrightarrow>
          a = build_connectArgs (config s) g \<and> a \<noteq> no_connectArgs"
    using zero
    by (auto simp: initialize_def Let_def split: if_splits sum.splits)
qed

theorem connectArgs_resolution_witness:
  "snd (snd (initialize test_client (Some plugin_config) (new_AOService gateway_config))) =
     [Call_connect
        \<lparr>MODE = Some legacy, GATEWAY_URL = Some ''https://gateway.test'',
         GRAPHQL_URL = Some ''https://graphql.test'', MU_URL = Some ''https://mu.test'',
         CU_URL = Some ''https://cu.test''\<rparr>]
   \<and> build_connectArgs gateway_config (Some plugin_config) \<noteq> no_connectArgs
   \<and> build_connectArgs empty_config (Some plugin_config) =
       \<lparr>MODE = Some legacy, GATEWAY_URL = Some ''https://arweave.net'',
        GRAPHQL_URL = Some ''https://arweave.net/graphql'', MU_URL = None, CU_URL = None\<rparr>"
  using connectArgs_resolution [of gateway_config "Some plugin_config" None None None
      test_client "new_AOService gateway_config"]
    connectArgs_resolution [of empty_config "Some plugin_config" None None None
      test_client "new_AOService empty_config"]
  by (simp add: initialize_def Let_def test_client_def new_AOService_def gateway_config_def
      empty_config_def plugin_config_def prefer_field_def opt_chain_def truthy_str_def
      truthy_mode_def keys_length_def no_connectArgs_def)

text \<open>
  An instance timeout, a process-wide timeout and a process-wide API key are all
  present here, and none of them reaches the external client: with no other field set
  \<open>connect\<close> is not called at all, and with the plugin's defaults it gets mode, gateway
  and GraphQL URL only.
\<close>

theorem timeout_and_key_not_passed:
  "defaultTimeout (config (new_AOService timeout_config)) = Some 5000
   \<and> snd (snd (initialize test_client None (new_AOService timeout_config))) = []
   \<and> AO_API_KEY plugin_config = Some ''secret-key''
   \<and> AO_DEFAULT_TIMEOUT plugin_config = Some 30000
   \<and> snd (snd (initialize test_client (Some plugin_config) (new_AOService timeout_config))) =
       [Call_connect
          \<lparr>MODE = Some legacy, GATEWAY_URL = Some ''https://arweave.net'',
           GRAPHQL_URL = Some ''https://arweave.net/graphql'', MU_URL = None, CU_URL = None\<rparr>]"
  by (simp add: initialize_def Let_def test_client_def new_AOService_def timeout_config_def
      empty_config_def plugin_config_def build_connectArgs_def or_str_def or_mode_def
      opt_chain_def truthy_str_def truthy_mode_def keys_length_def no_connectArgs_def)

section \<open>The pre-checks\<close>

lemma missing_process_fails_schema:
  assumes "map_of ms ''process'' = None"
  shows "\<not> sendMessageSchema (JObj ms)"
  using assms
  by (simp add: sendMessageSchema_def z_object_def get_prop_def z_string_min_def)

lemma no_process_content:
  "extract_content test_parse (JStr no_process_text) = Inr no_process_payload"
  by (simp add: extract_content_def test_parse_def no_process_text_def spawn_text_def
      send_text_def read_text_def)

text \<open>
  C8. When the content of the message has no \<open>process\<close> property, or fails the
  send-message schema in any other way, or is a text that \<open>JSON.parse\<close> rejects,
  \<open>validate\<close> of the send-message action answers false, and its trace is empty:
  \<open>sendMessage\<close> was not entered and the external client was not called.
\<close>

theorem sendAOMessage_validate_rejects:
  assumes "\<forall>content. extract_content JSON_parse text = Inr content \<longrightarrow>
             (\<exists>ms. content = JObj ms \<and> map_of ms ''process'' = None)
             \<or> \<not> sendMessageSchema content"
  shows "sendAOMessage_validate JSON_parse rt text = (False, [])"
proof (cases "extract_content JSON_parse text")
  case (Inl e)
  then show ?thesis
    by (simp add: sendAOMessage_validate_def validate_body_def split: sum.splits option.splits)
next
  case (Inr content)
  with assms have "\<not> sendMessageSchema content"
    using missing_process_fails_schema by blast
  with Inr show ?thesis
    by (simp add: sendAOMessage_validate_def validate_body_def split: sum.splits option.splits)
qed

theorem sendAOMessage_validate_rejects_witness:
  "extract_content test_parse (JStr no_process_text) = Inr no_process_payload
   \<and> no_process_payload = JObj [(''data'', JStr ''test message'')]
   \<and> map_of [(''data'', JStr ''test message'')] ''process'' = None
   \<and> getService running_runtime
       = Inr (Some ((new_AOService empty_config)\<lparr>initialized := True\<rparr>))
   \<and> isInitialized ((new_AOService empty_config)\<lparr>initialized := True\<rparr>)
   \<and> sendAOMessage_validate test_parse running_runtime (JStr no_process_text) = (False, [])"
proof -
  have m: "\<forall>content. extract_content test_parse (JStr no_process_text) = Inr content \<longrightarrow>
             (\<exists>ms. content = JObj ms \<and> map_of ms ''process'' = None)
             \<or> \<not> sendMessageSchema content"
    by (simp add: no_process_content no_process_payload_def)
  show ?thesis
    using no_process_content sendAOMessage_validate_rejects [OF m, of running_runtime]
    by (simp add: isInitialized_def running_runtime_def no_process_payload_def)
qed

text \<open>
  C9. When the runtime has no AO service, or has one that is not initialized, the
  \<open>validate\<close> of each of the four actions answers false for every message and every
  behaviour of \<open>JSON.parse\<close>: the content is not looked at.
\<close>

theorem validate_needs_initialized_service:
  assumes "getService rt = Inr None
           \<or> (\<exists>service. getService rt = Inr (Some service) \<and> \<not> isInitialized service)"
  shows "spawnAOProcess_validate JSON_parse rt text = (False, [])
         \<and> sendAOMessage_validate JSON_parse rt text = (False, [])
         \<and> readAOResult_validate JSON_parse rt text = (False, [])
         \<and> dryRunAO_validate JSON_parse rt text = (False, [])"
  using assms
  by (auto simp: spawnAOProcess_validate_def sendAOMessage_validate_def
      readAOResult_validate_def dryRunAO_validate_def validate_body_def)

theorem validate_needs_initialized_service_witness:
  "getService stopped_runtime = Inr (Some (new_AOService empty_config))
   \<and> \<not> isInitialized (new_AOService empty_config)
   \<and> spawnProcessSchema spawn_payload
   \<and> sendMessageSchema send_payload
   \<and> readResultSchema read_payload
   \<and> dryRunSchema send_payload
   \<and> spawnAOProcess_validate test_parse running_runtime (JStr spawn_text) = (True, [])
   \<and> spawnAOProcess_validate test_parse stopped_runtime (JStr spawn_text) = (False, [])
   \<and> sendAOMessage_validate test_parse running_runtime (JStr send_text) = (True, [])
   \<and> sendAOMessage_validate test_parse stopped_runtime (JStr send_text) = (False, [])
   \<and> readAOResult_validate test_parse running_runtime (JStr read_text) = (True, [])
   \<and> readAOResult_validate test_parse stopped_runtime (JStr read_text) = (False, [])
   \<and> dryRunAO_validate test_parse running_runtime (JStr send_text) = (True, [])
   \<and> dryRunAO_validate test_parse stopped_runtime (JStr send_text) = (False, [])"
proof -
  have h: "getService stopped_runtime = Inr None
           \<or> (\<exists>service. getService stopped_runtime = Inr (Some service)
                \<and> \<not> isInitialized service)"
    by (simp add: stopped_runtime_def isInitialized_def new_AOService_def)
  have schemas: "spawnProcessSchema spawn_payload" "sendMessageSchema send_payload"
    "readResultSchema read_payload" "dryRunSchema send_payload"
    by (simp_all add: spawnProcessSchema_def sendMessageSchema_def readResultSchema_def
        dryRunSchema_def spawn_payload_def send_payload_def read_payload_def z_object_def
        get_prop_def z_string_min_def z_optional_def tags_schema_def)
  have parses: "extract_content test_parse (JStr spawn_text) = Inr spawn_payload"
    "extract_content test_parse (JStr send_text) = Inr send_payload"
    "extract_content test_parse (JStr read_text) = Inr read_payload"
    by (simp_all add: extract_content_def test_parse_def spawn_text_def send_text_def
        read_text_def)
  have running: "getService running_runtime
                   = Inr (Some ((new_AOService empty_config)\<lparr>initialized := True\<rparr>))"
    "isInitialized ((new_AOService empty_config)\<lparr>initialized := True\<rparr>)"
    by (simp_all add: running_runtime_def isInitialized_def)
  show ?thesis
    using validate_needs_initialized_service [OF h, of test_parse "JStr spawn_text"]
      validate_needs_initialized_service [OF h, of test_parse "JStr send_text"]
      validate_needs_initialized_service [OF h, of test_parse "JStr read_text"]
      schemas parses running
    by (simp add: spawnAOProcess_validate_def sendAOMessage_validate_def
        readAOResult_validate_def dryRunAO_validate_def validate_body_def
        stopped_runtime_def isInitialized_def new_AOService_def)
qed

end
